theory Spec2Isabelle
  imports Complex_Main
begin

section \<open>The starfighter generator of generate-ships.py\<close>

text \<open>
  The script draws every style and every dimension of a ship from Python's process-wide
  random stream and hands the resulting requests to Blender's mesh editor. The model keeps
  both collaborators at their interface:
  \<^item> the random stream is a state \<open>'s\<close> with the two primitives CPython's \<open>random\<close>
    module builds everything on (\<open>random()\<close> and \<open>_randbelow(n)\<close>) and \<open>seed\<close>;
    \<open>uniform\<close> and \<open>choice\<close> are written on top of them as the module does;
  \<^item> the mesh \<open>bm\<close> is the list of the parts the script asked the editor for, each with
    the arguments of the call that made it, the later operations on its vertices and the
    material index of its faces. A \<open>result['verts']\<close> handle is the list of the indices
    of the parts the vertices belong to.
  Floats are modelled as reals.
\<close>

subsection \<open>Data\<close>

text \<open>The enumeration \<open>Material\<close>; its member \<open>hull\<close> is written \<open>hull_m\<close>.\<close>

datatype Material = hull_m | hull_accent | hull_dark | engine_glow | cockpit

type_synonym vec = "real \<times> real \<times> real"

text \<open>\<open>radians d\<close> is the angle \<open>math.radians(d)\<close>, kept as the call.
  \<open>Rotation a n ax\<close> is \<open>Matrix.Rotation(a, n, ax)\<close>, \<open>Scale f n v\<close> is
  \<open>Matrix.Scale(f, n, v)\<close>, \<open>MatMul\<close> is the operator \<open>@\<close>; \<open>Identity\<close> is the
  placement of a call that passes no matrix.\<close>

datatype angle = radians real

datatype matrix =
    Identity
  | Translation vec
  | Rotation angle nat string
  | Scale real nat vec
  | MatMul matrix matrix


definition vadd :: "vec \<Rightarrow> vec \<Rightarrow> vec" where
  "vadd a b = (case a of (ax, ay, az) \<Rightarrow> case b of (bx, by, bz) \<Rightarrow> (ax + bx, ay + by, az + bz))"

text \<open>The shapes: \<open>Cone cap_ends cap_tris segments radius1 radius2 depth matrix\<close>,
  \<open>Cube size matrix\<close>, \<open>Icosphere subdivisions radius matrix\<close>, \<open>Face verts\<close> for a
  face made of new vertices, \<open>ExtrudeRegion faces\<close> for the geometry that
  \<open>extrude_face_region\<close> makes from the faces of the parts listed.\<close>

datatype geom =
    Cone bool bool nat real real real matrix
  | Cube real matrix
  | Icosphere nat real matrix
  | Face "vec list"
  | ExtrudeRegion "nat list"

text \<open>Operations on the vertices of a part that exists: \<open>bmesh.ops.bevel\<close>,
  \<open>rotate\<close>, \<open>translate\<close> and \<open>scale\<close>.\<close>

datatype edit =
    Bevel real nat
  | Rotate vec matrix
  | Translate vec
  | ScaleVerts vec

record part =
  shape :: geom
  edits :: "edit list"
  material_index :: Material

type_synonym mesh = "part list"

subsection \<open>The random stream\<close>

record 's rng =
  rng_random :: "'s \<Rightarrow> real \<times> 's"
  rng_randbelow :: "nat \<Rightarrow> 's \<Rightarrow> nat \<times> 's"
  rng_seed :: "string \<Rightarrow> 's"

text \<open>\<open>uniform(a, b)\<close> is \<open>a + (b - a) * random()\<close> and \<open>choice(seq)\<close> is
  \<open>seq[_randbelow(len(seq))]\<close>.\<close>

definition uniform :: "'s rng \<Rightarrow> real \<Rightarrow> real \<Rightarrow> 's \<Rightarrow> real \<times> 's" where
  "uniform R a b s = (case rng_random R s of (u, s') \<Rightarrow> (a + (b - a) * u, s'))"

definition choice :: "'s rng \<Rightarrow> 'a list \<Rightarrow> 's \<Rightarrow> 'a \<times> 's" where
  "choice R seq s = (case rng_randbelow R (length seq) s of (i, s') \<Rightarrow> (seq ! i, s'))"

text \<open>What the module documents of its primitives: \<open>random()\<close> lies in \<open>[0, 1)\<close> and
  \<open>_randbelow(n)\<close> lies in \<open>[0, n)\<close>. Under it the index \<open>choice\<close> reads is
  always inside the sequence; the theorems that need a member of the sequence or a bound
  on a draw assume it.\<close>

definition rng_ok :: "'s rng \<Rightarrow> bool" where
  "rng_ok R \<longleftrightarrow>
     (\<forall>s. 0 \<le> fst (rng_random R s) \<and> fst (rng_random R s) < 1) \<and>
     (\<forall>n s. 0 < n \<longrightarrow> fst (rng_randbelow R n s) < n)"

text \<open>A stream that reads its draws from a tape of numbers, to run the generator on:
  \<open>random()\<close> reads hundredths, \<open>_randbelow(n)\<close> reduces modulo \<open>n\<close>, an exhausted
  tape gives 0.\<close>

definition tape_rng :: "nat list rng" where
  "tape_rng = \<lparr>
     rng_random = (\<lambda>s. case s of [] \<Rightarrow> (0, []) | k # t \<Rightarrow> (real (k mod 100) / 100, t)),
     rng_randbelow = (\<lambda>n s. case s of [] \<Rightarrow> (0, []) | k # t \<Rightarrow> (k mod n, t)),
     rng_seed = (\<lambda>a. map of_char a) \<rparr>"

subsection \<open>The mesh editor's calls\<close>

definition create_cone ::
  "mesh \<Rightarrow> bool \<Rightarrow> bool \<Rightarrow> nat \<Rightarrow> real \<Rightarrow> real \<Rightarrow> real \<Rightarrow> matrix \<Rightarrow> mesh \<times> nat list" where
  "create_cone bm cap_ends cap_tris segments radius1 radius2 depth m =
     (bm @ [\<lparr>shape = Cone cap_ends cap_tris segments radius1 radius2 depth m,
             edits = [], material_index = hull_m\<rparr>], [length bm])"

definition create_cube :: "mesh \<Rightarrow> real \<Rightarrow> matrix \<Rightarrow> mesh \<times> nat list" where
  "create_cube bm size_v m =
     (bm @ [\<lparr>shape = Cube size_v m, edits = [], material_index = hull_m\<rparr>], [length bm])"

definition create_icosphere :: "mesh \<Rightarrow> nat \<Rightarrow> real \<Rightarrow> matrix \<Rightarrow> mesh \<times> nat list" where
  "create_icosphere bm subdivisions radius m =
     (bm @ [\<lparr>shape = Icosphere subdivisions radius m, edits = [], material_index = hull_m\<rparr>],
      [length bm])"

text \<open>\<open>bm.verts.new\<close> for each corner, then \<open>bm.faces.new\<close>: one new face, with
  the editor's default material index 0.\<close>

definition faces_new :: "mesh \<Rightarrow> vec list \<Rightarrow> mesh \<times> nat" where
  "faces_new bm verts =
     (bm @ [\<lparr>shape = Face verts, edits = [], material_index = hull_m\<rparr>], length bm)"

definition set_material_index :: "mesh \<Rightarrow> nat \<Rightarrow> Material \<Rightarrow> mesh" where
  "set_material_index bm f m =
     (if f < length bm then bm[f := (bm ! f)\<lparr>material_index := m\<rparr>] else bm)"

text \<open>\<open>extrude_face_region\<close> copies the faces it is given, so the new geometry starts
  with the material index of the first of them.\<close>

definition extrude_face_region :: "mesh \<Rightarrow> nat list \<Rightarrow> mesh \<times> nat list" where
  "extrude_face_region bm fs =
     (bm @ [\<lparr>shape = ExtrudeRegion fs, edits = [],
             material_index = (case fs of [] \<Rightarrow> hull_m
                               | f # _ \<Rightarrow> if f < length bm then material_index (bm ! f) else hull_m)\<rparr>],
      [length bm])"

definition edit_verts :: "mesh \<Rightarrow> nat list \<Rightarrow> edit \<Rightarrow> mesh" where
  "edit_verts bm verts e =
     fold (\<lambda>i b. if i < length b then b[i := (b ! i)\<lparr>edits := edits (b ! i) @ [e]\<rparr>] else b)
       verts bm"

definition all_verts :: "mesh \<Rightarrow> nat list" where
  "all_verts bm = [0..<length bm]"

text \<open>\<open>add_to_mesh\<close>: every face linked to one of the vertices gets the material
  index. The vertices of a part are linked to the faces of that part.\<close>

definition add_to_mesh :: "mesh \<Rightarrow> nat list \<Rightarrow> Material \<Rightarrow> mesh" where
  "add_to_mesh bm verts m = fold (\<lambda>v b. set_material_index b v m) verts bm"

subsection \<open>Fuselage and canopy\<close>

definition create_fuselage :: "'s rng \<Rightarrow> mesh \<Rightarrow> 's \<Rightarrow> string \<times> mesh \<times> 's" where
  "create_fuselage R bm s =
     (case choice R [''pointed'', ''rounded'', ''angular'', ''pod''] s of (style, s1) \<Rightarrow>
      if style = ''pointed'' then
        (case uniform R 1.5 2.5 s1 of (length_v, s2) \<Rightarrow>
         case uniform R 0.4 0.7 s2 of (width, s3) \<Rightarrow>
         case uniform R 0.3 0.5 s3 of (height, s4) \<Rightarrow>
         case create_cone bm True False 8 (width * 0.3) width (length_v * 0.6)
                (Rotation (radians 90) 4 ''Y'') of (bm1, result1) \<Rightarrow>
         let bm2 = add_to_mesh bm1 result1 hull_m in
         case create_cone bm2 True False 8 width (width * 0.7) (length_v * 0.4)
                (MatMul (Translation (- length_v * 0.5, 0, 0)) (Rotation (radians 90) 4 ''Y''))
           of (bm3, result2) \<Rightarrow>
         (style, add_to_mesh bm3 result2 hull_m, s4))
      else if style = ''rounded'' then
        (case uniform R 1.8 2.8 s1 of (length_v, s2) \<Rightarrow>
         case uniform R 0.5 0.8 s2 of (width, s3) \<Rightarrow>
         case create_icosphere bm 2 width (Scale (length_v / width / 2) 4 (1, 0, 0))
           of (bm1, result) \<Rightarrow>
         (style, add_to_mesh bm1 result hull_m, s3))
      else if style = ''angular'' then
        (case uniform R 0.6 1.0 s1 of (size_v, s2) \<Rightarrow>
         case create_cube bm size_v Identity of (bm1, _) \<Rightarrow>
         let bm2 = edit_verts bm1 (all_verts bm1) (Bevel (size_v * 0.1) 2) in
         (style, map (\<lambda>f. f\<lparr>material_index := hull_m\<rparr>) bm2, s2))
      else
        (case uniform R 0.5 0.8 s1 of (radius, s2) \<Rightarrow>
         case create_icosphere bm 2 radius Identity of (bm1, result) \<Rightarrow>
         let bm2 = add_to_mesh bm1 result hull_m in
         case uniform R 1.2 1.8 s2 of (stretch, s3) \<Rightarrow>
         (style, edit_verts bm2 (all_verts bm2) (ScaleVerts (stretch, 1, 1)), s3)))"

definition add_cockpit_canopy :: "'s rng \<Rightarrow> mesh \<Rightarrow> string \<Rightarrow> 's \<Rightarrow> mesh \<times> 's" where
  "add_cockpit_canopy R bm fuselage_style s =
     (case rng_random R s of (r, s1) \<Rightarrow>
      if r > 0.3 then
        (case uniform R 0.2 0.4 s1 of (canopy_size, s2) \<Rightarrow>
         case uniform R 0.1 0.25 s2 of (y_offset, s3) \<Rightarrow>
         if fuselage_style \<in> set [''pointed'', ''rounded''] then
           (case uniform R (- 0.2) 0.3 s3 of (x_offset, s4) \<Rightarrow>
            case create_icosphere bm 2 canopy_size (Translation (x_offset, y_offset, 0))
              of (bm1, result) \<Rightarrow>
            (add_to_mesh bm1 result cockpit, s4))
         else
           (case create_cube bm (canopy_size * 1.5) (Translation (0, y_offset, 0))
              of (bm1, result) \<Rightarrow>
            (add_to_mesh bm1 result cockpit, s3)))
      else (bm, s1))"

subsection \<open>Wings\<close>

text \<open>The bodies of the five loops of \<open>add_wings\<close>; each takes the loop variable and
  the mesh and stream before the iteration, and returns them after it.\<close>

definition xwing_panel ::
  "'s rng \<Rightarrow> real \<Rightarrow> real \<Rightarrow> real \<Rightarrow> real \<Rightarrow> nat \<Rightarrow> mesh \<times> 's \<Rightarrow> mesh \<times> 's" where
  "xwing_panel R wing_length wing_width wing_thickness spread_angle i st =
     (case st of (bm, s) \<Rightarrow>
      let angle = (if i < 2 then spread_angle else - spread_angle);
          y_sign = (if i mod 2 = 0 then 1 else - 1) in
      case uniform R (- 0.3) 0.1 s of (x, s1) \<Rightarrow>
      case create_cube bm 1
             (MatMul (MatMul (MatMul (Translation (x, 0, wing_length / 2))
                                     (Scale wing_width 4 (1, 0, 0)))
                             (Scale wing_thickness 4 (0, 1, 0)))
                     (Scale wing_length 4 (0, 0, 1))) of (bm1, result) \<Rightarrow>
      let bm2 = edit_verts bm1 result
                  (Rotate (0, 0, 0) (Rotation (radians (angle * y_sign)) 3 ''X''));
          bm3 = edit_verts bm2 result (Translate (0, 0, 0)) in
      (add_to_mesh bm3 result (if i mod 2 = 0 then hull_m else hull_accent), s1))"

definition swept_wing :: "'s rng \<Rightarrow> real \<Rightarrow> real \<Rightarrow> real \<Rightarrow> int \<Rightarrow> mesh \<times> 's \<Rightarrow> mesh \<times> 's" where
  "swept_wing R wing_length wing_width sweep side st =
     (case st of (bm, s) \<Rightarrow>
      let verts = [(0, 0, 0.2 * real_of_int side),
                   (- wing_width * sweep, 0, wing_length * real_of_int side),
                   (wing_width * (1 - sweep), 0, wing_length * real_of_int side),
                   (wing_width * 0.3, 0, 0.3 * real_of_int side)] in
      case faces_new bm (if side > 0 then verts else rev verts) of (bm1, face) \<Rightarrow>
      let bm2 = set_material_index bm1 face hull_accent in
      case extrude_face_region bm2 [face] of (bm3, result) \<Rightarrow>
      case uniform R 0.03 0.08 s of (t, s1) \<Rightarrow>
      (edit_verts bm3 result (Translate (0, t, 0)), s1))"

definition delta_wing :: "'s rng \<Rightarrow> real \<Rightarrow> real \<Rightarrow> int \<Rightarrow> mesh \<times> 's \<Rightarrow> mesh \<times> 's" where
  "delta_wing R wing_span wing_length side st =
     (case st of (bm, s) \<Rightarrow>
      let verts = [(wing_length * 0.5, 0, 0),
                   (- wing_length * 0.5, 0, wing_span * 0.5 * real_of_int side),
                   (- wing_length * 0.3, 0, 0.1 * real_of_int side)] in
      case faces_new bm (if side > 0 then verts else rev verts) of (bm1, face) \<Rightarrow>
      let bm2 = set_material_index bm1 face hull_accent in
      case extrude_face_region bm2 [face] of (bm3, result) \<Rightarrow>
      case uniform R 0.04 0.1 s of (t, s1) \<Rightarrow>
      (edit_verts bm3 result (Translate (0, t, 0)), s1))"

definition vertical_wing :: "'s rng \<Rightarrow> real \<Rightarrow> real \<Rightarrow> int \<Rightarrow> mesh \<times> 's \<Rightarrow> mesh \<times> 's" where
  "vertical_wing R wing_height wing_width side st =
     (case st of (bm, s) \<Rightarrow>
      case rng_random R s of (r, s1) \<Rightarrow>
      case (if r > 0.5 then
              create_cone bm True False 6 (wing_height * 0.5) (wing_height * 0.5) 0.05
                (MatMul (Translation (0, 0, wing_width * 0.6 * real_of_int side))
                        (Rotation (radians 90) 4 ''Y''))
            else
              create_cube bm 1
                (MatMul (MatMul (MatMul (Translation (0, 0, wing_width * 0.6 * real_of_int side))
                                        (Scale 0.05 4 (0, 0, 1)))
                                (Scale wing_height 4 (0, 1, 0)))
                        (Scale (wing_width * 0.8) 4 (1, 0, 0)))) of (bm1, result) \<Rightarrow>
      let bm2 = add_to_mesh bm1 result hull_dark in
      case create_cube bm2 1
             (MatMul (MatMul (MatMul (Translation (0, 0, wing_width * 0.3 * real_of_int side))
                                     (Scale 0.1 4 (1, 0, 0)))
                             (Scale 0.1 4 (0, 1, 0)))
                     (Scale (wing_width * 0.3) 4 (0, 0, 1))) of (bm3, result2) \<Rightarrow>
      (add_to_mesh bm3 result2 hull_m, s1))"

definition stub_wing :: "'s rng \<Rightarrow> real \<Rightarrow> int \<Rightarrow> mesh \<times> 's \<Rightarrow> mesh \<times> 's" where
  "stub_wing R wing_length side st =
     (case st of (bm, s) \<Rightarrow>
      case uniform R (- 0.2) 0.2 s of (x, s1) \<Rightarrow>
      case uniform R 0.4 0.7 s1 of (w, s2) \<Rightarrow>
      case uniform R 0.05 0.12 s2 of (h, s3) \<Rightarrow>
      case create_cube bm 1
             (MatMul (MatMul (MatMul (Translation (x, 0, wing_length * 0.6 * real_of_int side))
                                     (Scale w 4 (1, 0, 0)))
                             (Scale h 4 (0, 1, 0)))
                     (Scale wing_length 4 (0, 0, 1))) of (bm1, result) \<Rightarrow>
      (add_to_mesh bm1 result hull_accent, s3))"

definition wing_styles :: "string list" where
  "wing_styles = [''x-wing'', ''swept'', ''delta'', ''vertical'', ''ring'', ''stub'']"

definition add_wings :: "'s rng \<Rightarrow> mesh \<Rightarrow> 's \<Rightarrow> string \<times> mesh \<times> 's" where
  "add_wings R bm s =
     (case choice R wing_styles s of (wing_style, s1) \<Rightarrow>
      if wing_style = ''x-wing'' then
        (case uniform R 1.5 2.5 s1 of (wing_length, s2) \<Rightarrow>
         case uniform R 0.6 1.0 s2 of (wing_width, s3) \<Rightarrow>
         case uniform R 0.03 0.08 s3 of (wing_thickness, s4) \<Rightarrow>
         case uniform R 15 35 s4 of (spread_angle, s5) \<Rightarrow>
         case fold (xwing_panel R wing_length wing_width wing_thickness spread_angle)
                [0, 1, 2, 3] (bm, s5) of (bm', s') \<Rightarrow>
         (wing_style, bm', s'))
      else if wing_style = ''swept'' then
        (case uniform R 1.2 2.0 s1 of (wing_length, s2) \<Rightarrow>
         case uniform R 0.8 1.4 s2 of (wing_width, s3) \<Rightarrow>
         case uniform R 0.3 0.7 s3 of (sweep, s4) \<Rightarrow>
         case fold (swept_wing R wing_length wing_width sweep) [- 1, 1] (bm, s4)
           of (bm', s') \<Rightarrow>
         (wing_style, bm', s'))
      else if wing_style = ''delta'' then
        (case uniform R 1.5 2.5 s1 of (wing_span, s2) \<Rightarrow>
         case uniform R 1.0 1.8 s2 of (wing_length, s3) \<Rightarrow>
         case fold (delta_wing R wing_span wing_length) [- 1, 1] (bm, s3) of (bm', s') \<Rightarrow>
         (wing_style, bm', s'))
      else if wing_style = ''vertical'' then
        (case uniform R 1.5 2.5 s1 of (wing_height, s2) \<Rightarrow>
         case uniform R 1.0 1.8 s2 of (wing_width, s3) \<Rightarrow>
         case fold (vertical_wing R wing_height wing_width) [- 1, 1] (bm, s3) of (bm', s') \<Rightarrow>
         (wing_style, bm', s'))
      else if wing_style = ''ring'' then
        (case uniform R 1.2 2.0 s1 of (ring_radius, s2) \<Rightarrow>
         case uniform R 0.1 0.2 s2 of (ring_thickness, s3) \<Rightarrow>
         case create_cone bm False False 32 ring_radius ring_radius ring_thickness
                (Rotation (radians 90) 4 ''Y'') of (bm1, result) \<Rightarrow>
         let bm2 = add_to_mesh bm1 result hull_accent in
         case create_cone bm2 False False 32 (ring_radius * 0.85) (ring_radius * 0.85)
                (ring_thickness * 1.5) (Rotation (radians 90) 4 ''Y'') of (bm3, result2) \<Rightarrow>
         (wing_style, add_to_mesh bm3 result2 hull_dark, s3))
      else
        (case uniform R 0.5 0.8 s1 of (wing_length, s2) \<Rightarrow>
         case fold (stub_wing R wing_length) [- 1, 1] (bm, s2) of (bm', s') \<Rightarrow>
         (wing_style, bm', s')))"

subsection \<open>Engines\<close>

definition engine_styles :: "string list" where
  "engine_styles = [''rear'', ''wing_tip'', ''pod'', ''central'']"

text \<open>The chain of branches of \<open>add_engines\<close> that fills \<open>positions\<close> and, in two
  branches, rescales \<open>engine_radius\<close> and \<open>engine_length\<close>. It returns the positions,
  the two dimensions as they are after the chain, and the stream.\<close>

definition engine_positions ::
  "'s rng \<Rightarrow> string \<Rightarrow> string \<Rightarrow> real \<Rightarrow> real \<Rightarrow> 's \<Rightarrow> vec list \<times> real \<times> real \<times> 's" where
  "engine_positions R wing_style engine_style engine_radius engine_length s =
     (if engine_style = ''rear'' \<or> wing_style = ''vertical'' then
        (case choice R [1, 2, 3 :: int] s of (num_engines, s1) \<Rightarrow>
         let spacing = 0.25 in
         (map (\<lambda>i. (- 0.8, 0, (real i - (real_of_int num_engines - 1) / 2) * spacing))
            [0..<nat num_engines],
          engine_radius, engine_length, s1))
      else if engine_style = ''wing_tip'' then
        (case uniform R 1.0 1.8 s of (wing_span, s1) \<Rightarrow>
         case uniform R (- 0.3) 0.1 s1 of (x1, s2) \<Rightarrow>
         case uniform R (- 0.3) 0.1 s2 of (x2, s3) \<Rightarrow>
         let positions = [(x1, 0, wing_span), (x2, 0, - wing_span)] in
         case rng_random R s3 of (r, s4) \<Rightarrow>
         if r > 0.5 then
           (case uniform R (- 0.3) 0.1 s4 of (x3, s5) \<Rightarrow>
            case uniform R (- 0.3) 0.1 s5 of (x4, s6) \<Rightarrow>
            case uniform R (- 0.3) 0.1 s6 of (x5, s7) \<Rightarrow>
            case uniform R (- 0.3) 0.1 s7 of (x6, s8) \<Rightarrow>
            (positions @ [(x3, wing_span * 0.3, wing_span * 0.5),
                          (x4, - wing_span * 0.3, wing_span * 0.5),
                          (x5, wing_span * 0.3, - wing_span * 0.5),
                          (x6, - wing_span * 0.3, - wing_span * 0.5)],
             engine_radius, engine_length, s8))
         else (positions, engine_radius, engine_length, s4))
      else if engine_style = ''pod'' then
        (case uniform R 0.5 0.9 s of (pod_offset, s1) \<Rightarrow>
         ([(- 0.3, 0, pod_offset), (- 0.3, 0, - pod_offset)],
          engine_radius * 1.5, engine_length * 1.5, s1))
      else
        ([(- 0.7, 0, 0)], engine_radius * 2, engine_length * 1.5, s))"

text \<open>The body of the loop over \<open>positions\<close>: the housing, then the glow.\<close>

definition engine_pair :: "real \<Rightarrow> real \<Rightarrow> vec \<Rightarrow> mesh \<Rightarrow> mesh" where
  "engine_pair engine_radius engine_length pos bm =
     (case create_cone bm True False 12 engine_radius (engine_radius * 0.8) engine_length
             (MatMul (Translation pos) (Rotation (radians 90) 4 ''Y'')) of (bm1, result) \<Rightarrow>
      let bm2 = add_to_mesh bm1 result hull_dark in
      case create_cone bm2 True False 12 (engine_radius * 0.7) (engine_radius * 0.5)
             (engine_length * 0.3)
             (MatMul (Translation (vadd pos (- engine_length * 0.5, 0, 0)))
                     (Rotation (radians 90) 4 ''Y'')) of (bm3, result2) \<Rightarrow>
      add_to_mesh bm3 result2 engine_glow)"

definition add_engines :: "'s rng \<Rightarrow> mesh \<Rightarrow> string \<Rightarrow> 's \<Rightarrow> mesh \<times> 's" where
  "add_engines R bm wing_style s =
     (case choice R engine_styles s of (engine_style, s1) \<Rightarrow>
      case uniform R 0.1 0.25 s1 of (engine_radius, s2) \<Rightarrow>
      case uniform R 0.3 0.6 s2 of (engine_length, s3) \<Rightarrow>
      case engine_positions R wing_style engine_style engine_radius engine_length s3
        of (positions, engine_radius', engine_length', s4) \<Rightarrow>
      (fold (engine_pair engine_radius' engine_length') positions bm, s4))"

subsection \<open>Details\<close>

definition nose_gun :: "real \<Rightarrow> real \<Rightarrow> real \<Rightarrow> int \<Rightarrow> mesh \<Rightarrow> mesh" where
  "nose_gun gun_length gun_radius gun_spread side bm =
     (case create_cone bm True False 6 gun_radius gun_radius gun_length
             (MatMul (Translation (gun_length / 2 + 0.5, 0, gun_spread * real_of_int side))
                     (Rotation (radians 90) 4 ''Y'')) of (bm1, result) \<Rightarrow>
      add_to_mesh bm1 result hull_dark)"

definition wing_weapon :: "'s rng \<Rightarrow> int \<Rightarrow> mesh \<times> 's \<Rightarrow> mesh \<times> 's" where
  "wing_weapon R side st =
     (case st of (bm, s) \<Rightarrow>
      case uniform R 0 0.5 s of (x, s1) \<Rightarrow>
      case uniform R 0.8 1.5 s1 of (z, s2) \<Rightarrow>
      let pos = (x, 0, z * real_of_int side) in
      case create_cone bm True False 6 0.03 0.03 0.5
             (MatMul (Translation pos) (Rotation (radians 90) 4 ''Y'')) of (bm1, result) \<Rightarrow>
      (add_to_mesh bm1 result hull_dark, s2))"

definition add_details :: "'s rng \<Rightarrow> mesh \<Rightarrow> 's \<Rightarrow> mesh \<times> 's" where
  "add_details R bm s =
     (case rng_random R s of (r1, s1) \<Rightarrow>
      case (if r1 > 0.4 then
              (case uniform R 0.4 0.8 s1 of (gun_length, t1) \<Rightarrow>
               case uniform R 0.02 0.05 t1 of (gun_radius, t2) \<Rightarrow>
               case uniform R 0.15 0.35 t2 of (gun_spread, t3) \<Rightarrow>
               (fold (nose_gun gun_length gun_radius gun_spread) [- 1, 1] bm, t3))
            else (bm, s1)) of (bm1, s2) \<Rightarrow>
      case rng_random R s2 of (r2, s3) \<Rightarrow>
      case (if r2 > 0.5 then fold (wing_weapon R) [- 1, 1] (bm1, s3) else (bm1, s3))
        of (bm2, s4) \<Rightarrow>
      case rng_random R s4 of (r3, s5) \<Rightarrow>
      if r3 > 0.6 then
        (case create_cone bm2 True False 8 0.0 0.1 0.15
                (MatMul (Translation (0.3, 0.3, 0)) (Rotation (radians (- 90)) 4 ''X''))
           of (bm3, result) \<Rightarrow>
         (add_to_mesh bm3 result hull_accent, s5))
      else (bm2, s5))"

subsection \<open>Materials and assembly\<close>

text \<open>A material is its name and the shader inputs the script assigns, in order.
  \<open>hls_to_rgb\<close> belongs to the standard library and is a parameter.\<close>

datatype input_value = Color real real real real | Factor real

record material =
  mat_name :: string
  mat_inputs :: "(string \<times> input_value) list"

definition create_materials ::
  "'s rng \<Rightarrow> (real \<Rightarrow> real \<Rightarrow> real \<Rightarrow> real \<times> real \<times> real) \<Rightarrow> 's \<Rightarrow> material list \<times> 's" where
  "create_materials R hls_to_rgb s =
     (case rng_random R s of (hull_hue, s1) \<Rightarrow>
      case uniform R 0.4 0.7 s1 of (hull_l, s2) \<Rightarrow>
      case uniform R 0.0 0.15 s2 of (hull_s, s3) \<Rightarrow>
      case hls_to_rgb hull_hue hull_l hull_s of (hr, hg, hb) \<Rightarrow>
      case uniform R 0.05 0.15 s3 of (shift, s4) \<Rightarrow>
      let accent_hue = frac (hull_hue + shift) in
      case uniform R 0.4 0.6 s4 of (accent_l, s5) \<Rightarrow>
      case uniform R 0.5 0.8 s5 of (accent_s, s6) \<Rightarrow>
      case hls_to_rgb accent_hue accent_l accent_s of (ar, ag, ab) \<Rightarrow>
      case choice R [0.0, 0.1, 0.55, 0.65] s6 of (glow_hue, s7) \<Rightarrow>
      case hls_to_rgb glow_hue 0.6 1.0 of (gr, gg, gb) \<Rightarrow>
      ([\<lparr>mat_name = ''hull'',
         mat_inputs = [(''Base Color'', Color hr hg hb 1.0),
                       (''Metallic'', Factor 0.3), (''Roughness'', Factor 0.5)]\<rparr>,
        \<lparr>mat_name = ''hull_accent'',
         mat_inputs = [(''Base Color'', Color ar ag ab 1.0),
                       (''Metallic'', Factor 0.2), (''Roughness'', Factor 0.4)]\<rparr>,
        \<lparr>mat_name = ''hull_dark'',
         mat_inputs = [(''Base Color'', Color (hr * 0.2) (hg * 0.2) (hb * 0.2) 1.0),
                       (''Metallic'', Factor 0.6), (''Roughness'', Factor 0.3)]\<rparr>,
        \<lparr>mat_name = ''engine_glow'',
         mat_inputs = [(''Base Color'', Color gr gg gb 1.0),
                       (''Emission Color'', Color gr gg gb 1.0),
                       (''Emission Strength'', Factor 8.0)]\<rparr>,
        \<lparr>mat_name = ''cockpit'',
         mat_inputs = [(''Base Color'', Color 0.1 0.15 0.2 1.0),
                       (''Metallic'', Factor 0.9), (''Roughness'', Factor 0.1)]\<rparr>],
       s7))"

text \<open>The object \<open>generate_starfighter\<close> returns: the mesh and the materials appended
  to it. The scene calls in between (linking, origin, smooth shading) draw nothing from
  the stream and take no argument that depends on it.\<close>

record ship =
  ship_mesh :: mesh
  ship_materials :: "material list"

text \<open>The last argument is the process-wide stream as the call finds it; the stream as the
  call leaves it is returned with the object.\<close>

definition generate_starfighter ::
  "'s rng \<Rightarrow> (real \<Rightarrow> real \<Rightarrow> real \<Rightarrow> real \<times> real \<times> real) \<Rightarrow> string \<Rightarrow> 's \<Rightarrow> ship \<times> 's" where
  "generate_starfighter R hls_to_rgb random_seed g =
     (let s0 = (if random_seed \<noteq> [] then rng_seed R random_seed else g);
          bm = [] in
      case create_fuselage R bm s0 of (fuselage_style, bm1, s1) \<Rightarrow>
      case add_cockpit_canopy R bm1 fuselage_style s1 of (bm2, s2) \<Rightarrow>
      case add_wings R bm2 s2 of (wing_style, bm3, s3) \<Rightarrow>
      case add_engines R bm3 wing_style s3 of (bm4, s4) \<Rightarrow>
      case add_details R bm4 s4 of (bm5, s5) \<Rightarrow>
      case create_materials R hls_to_rgb s5 of (materials, s6) \<Rightarrow>
      (\<lparr>ship_mesh = bm5, ship_materials = materials\<rparr>, s6))"

subsection \<open>Reading the mesh\<close>

text \<open>The parts a generator appended to the mesh it was given.\<close>

definition appended :: "mesh \<Rightarrow> mesh \<Rightarrow> mesh" where
  "appended bm bm' = drop (length bm) bm'"

text \<open>The factor by which a placement stretches one axis: the product of the
  \<open>Scale\<close> factors along that axis.\<close>

fun axis_scale :: "matrix \<Rightarrow> vec \<Rightarrow> real" where
  "axis_scale (Scale f n v) ax = (if v = ax then f else 1)"
| "axis_scale (MatMul a b) ax = axis_scale a ax * axis_scale b ax"
| "axis_scale _ ax = 1"

fun translate_y :: "edit \<Rightarrow> real list" where
  "translate_y (Translate v) = (case v of (x, y, z) \<Rightarrow> [y])"
| "translate_y _ = []"

text \<open>The lengths along which a solid part can be thin: the three sides of a cube, the
  depth of a cone, the distance an extruded region is moved off its outline.\<close>

definition solid_extents :: "part \<Rightarrow> real list" where
  "solid_extents p =
     (case shape p of
        Cone cap_ends cap_tris segments radius1 radius2 depth m \<Rightarrow> [depth]
      | Cube size_v m \<Rightarrow> [size_v * axis_scale m (1, 0, 0), size_v * axis_scale m (0, 1, 0),
                           size_v * axis_scale m (0, 0, 1)]
      | Icosphere subdivisions radius m \<Rightarrow> []
      | Face verts \<Rightarrow> []
      | ExtrudeRegion fs \<Rightarrow> concat (map translate_y (edits p)))"

text \<open>A part none of whose extents is below 0.03.\<close>

definition thick :: "part \<Rightarrow> bool" where
  "thick p \<longleftrightarrow> (\<forall>t \<in> set (solid_extents p). 0.03 \<le> t)"

subsection \<open>Helper facts\<close>

lemma rng_ok_tape: "rng_ok tape_rng"
  by (auto simp: rng_ok_def tape_rng_def split: list.splits)

lemma rng_ok_random: "rng_ok R \<Longrightarrow> 0 \<le> fst (rng_random R s) \<and> fst (rng_random R s) < 1"
  by (simp add: rng_ok_def)

lemma rng_ok_randbelow: "rng_ok R \<Longrightarrow> 0 < n \<Longrightarrow> fst (rng_randbelow R n s) < n"
  by (simp add: rng_ok_def)

lemma uniform_lower:
  assumes "rng_ok R" and "a \<le> b"
  shows "a \<le> fst (uniform R a b s)"
proof -
  have "0 \<le> (b - a) * fst (rng_random R s)"
    using assms rng_ok_random [of R s] by simp
  then show ?thesis
    by (simp add: uniform_def split_beta)
qed

lemma uniform_upper:
  assumes "rng_ok R" and "a \<le> b"
  shows "fst (uniform R a b s) \<le> b"
proof -
  have "(b - a) * fst (rng_random R s) \<le> (b - a) * 1"
    using assms rng_ok_random [of R s] by (intro mult_left_mono) simp_all
  then show ?thesis
    by (simp add: uniform_def split_beta)
qed

lemma choice_mem:
  assumes "rng_ok R" and "seq \<noteq> []"
  shows "fst (choice R seq s) \<in> set seq"
  using assms rng_ok_randbelow [of R "length seq" s]
  by (simp add: choice_def split_beta)

lemma tagged_cone:
  "add_to_mesh (fst (create_cone bm ce ct n r1 r2 d m)) (snd (create_cone bm ce ct n r1 r2 d m)) x
     = bm @ [\<lparr>shape = Cone ce ct n r1 r2 d m, edits = [], material_index = x\<rparr>]"
  by (simp add: add_to_mesh_def create_cone_def set_material_index_def)

lemma tagged_cube:
  "add_to_mesh (fst (create_cube bm sz m)) (snd (create_cube bm sz m)) x
     = bm @ [\<lparr>shape = Cube sz m, edits = [], material_index = x\<rparr>]"
  by (simp add: add_to_mesh_def create_cube_def set_material_index_def)

lemma tagged_icosphere:
  "add_to_mesh (fst (create_icosphere bm k r m)) (snd (create_icosphere bm k r m)) x
     = bm @ [\<lparr>shape = Icosphere k r m, edits = [], material_index = x\<rparr>]"
  by (simp add: add_to_mesh_def create_icosphere_def set_material_index_def)

lemma uniform_seed: "uniform (R\<lparr>rng_seed := f\<rparr>) a b s = uniform R a b s"
  by (simp add: uniform_def)

lemma choice_seed: "choice (R\<lparr>rng_seed := f\<rparr>) xs s = choice R xs s"
  by (simp add: choice_def)

lemmas seed_unused = uniform_seed choice_seed

lemma create_fuselage_seed:
  "create_fuselage (R\<lparr>rng_seed := f\<rparr>) bm s = create_fuselage R bm s"
  by (simp add: create_fuselage_def seed_unused split_beta Let_def cong: if_cong)

lemma add_cockpit_canopy_seed:
  "add_cockpit_canopy (R\<lparr>rng_seed := f\<rparr>) bm st s = add_cockpit_canopy R bm st s"
  by (simp add: add_cockpit_canopy_def seed_unused split_beta Let_def cong: if_cong)

lemma wing_steps_seed:
  "xwing_panel (R\<lparr>rng_seed := f\<rparr>) wl ww wt sa i st = xwing_panel R wl ww wt sa i st"
  "swept_wing (R\<lparr>rng_seed := f\<rparr>) wl ww sw side st = swept_wing R wl ww sw side st"
  "delta_wing (R\<lparr>rng_seed := f\<rparr>) wsp wl side st = delta_wing R wsp wl side st"
  "vertical_wing (R\<lparr>rng_seed := f\<rparr>) wh ww side st = vertical_wing R wh ww side st"
  "stub_wing (R\<lparr>rng_seed := f\<rparr>) wl side st = stub_wing R wl side st"
  by (simp_all add: xwing_panel_def swept_wing_def delta_wing_def vertical_wing_def
        stub_wing_def seed_unused split_beta Let_def)

lemma add_wings_seed: "add_wings (R\<lparr>rng_seed := f\<rparr>) bm s = add_wings R bm s"
  by (simp add: add_wings_def wing_steps_seed seed_unused split_beta cong: if_cong)

lemma engine_positions_seed:
  "engine_positions (R\<lparr>rng_seed := f\<rparr>) ws es r l s = engine_positions R ws es r l s"
  by (simp add: engine_positions_def seed_unused split_beta Let_def cong: if_cong)

lemma add_engines_seed: "add_engines (R\<lparr>rng_seed := f\<rparr>) bm ws s = add_engines R bm ws s"
  by (simp add: add_engines_def engine_positions_seed seed_unused split_beta)

lemma wing_weapon_seed: "wing_weapon (R\<lparr>rng_seed := f\<rparr>) side st = wing_weapon R side st"
  by (simp add: wing_weapon_def seed_unused split_beta Let_def)

lemma add_details_seed: "add_details (R\<lparr>rng_seed := f\<rparr>) bm s = add_details R bm s"
  by (simp add: add_details_def wing_weapon_seed seed_unused split_beta Let_def cong: if_cong)

lemma create_materials_seed:
  "create_materials (R\<lparr>rng_seed := f\<rparr>) H s = create_materials R H s"
  by (simp add: create_materials_def seed_unused split_beta)

lemmas mesh_calls = create_cone_def create_cube_def create_icosphere_def faces_new_def
  set_material_index_def extrude_face_region_def edit_verts_def add_to_mesh_def

lemma xwing_panel_eq:
  "xwing_panel R wl ww wt sa i (bm, s) =
     (bm @ [\<lparr>shape = Cube 1 (MatMul (MatMul (MatMul
                (Translation (fst (uniform R (- 0.3) 0.1 s), 0, wl / 2))
                (Scale ww 4 (1, 0, 0))) (Scale wt 4 (0, 1, 0))) (Scale wl 4 (0, 0, 1))),
             edits = [Rotate (0, 0, 0)
                        (Rotation (radians ((if i < 2 then sa else - sa) *
                                            (if i mod 2 = 0 then 1 else - 1))) 3 ''X''),
                      Translate (0, 0, 0)],
             material_index = (if i mod 2 = 0 then hull_m else hull_accent)\<rparr>],
      snd (uniform R (- 0.3) 0.1 s))"
  by (simp add: xwing_panel_def mesh_calls split_beta Let_def)

lemma swept_wing_eq:
  "swept_wing R wl ww sw side (bm, s) =
     (bm @ [\<lparr>shape = Face (if side > 0 then 
                   [(0, 0, 0.2 * real_of_int side),
                   (- ww * sw, 0, wl * real_of_int side),
                   (ww * (1 - sw), 0, wl * real_of_int side),
                   (ww * 0.3, 0, 0.3 * real_of_int side)] else rev [(0, 0, 0.2 * real_of_int side),
                   (- ww * sw, 0, wl * real_of_int side),
                   (ww * (1 - sw), 0, wl * real_of_int side),
                   (ww * 0.3, 0, 0.3 * real_of_int side)]), edits = [], material_index = hull_accent\<rparr>,
            \<lparr>shape = ExtrudeRegion [length bm], edits = [Translate (0, fst (uniform R 0.03 0.08 s), 0)], material_index = hull_accent\<rparr>],
      snd (uniform R 0.03 0.08 s))"
  by (simp add: swept_wing_def mesh_calls split_beta Let_def nth_append)

lemma delta_wing_eq:
  "delta_wing R wsp wl side (bm, s) =
     (bm @ [\<lparr>shape = Face (if side > 0 then 
                   [(wl * 0.5, 0, 0),
                   (- wl * 0.5, 0, wsp * 0.5 * real_of_int side),
                   (- wl * 0.3, 0, 0.1 * real_of_int side)] else rev [(wl * 0.5, 0, 0),
                   (- wl * 0.5, 0, wsp * 0.5 * real_of_int side),
                   (- wl * 0.3, 0, 0.1 * real_of_int side)]), edits = [], material_index = hull_accent\<rparr>,
            \<lparr>shape = ExtrudeRegion [length bm], edits = [Translate (0, fst (uniform R 0.04 0.1 s), 0)], material_index = hull_accent\<rparr>],
      snd (uniform R 0.04 0.1 s))"
  by (simp add: delta_wing_def mesh_calls split_beta Let_def nth_append)

lemma vertical_wing_eq:
  "vertical_wing R wh ww side (bm, s) =
     (bm @ [\<lparr>shape = (if fst (rng_random R s) > 0.5 then
                Cone True False 6 (wh * 0.5) (wh * 0.5) 0.05
                (MatMul (Translation (0, 0, ww * 0.6 * real_of_int side))
                        (Rotation (radians 90) 4 ''Y''))
               else Cube 1
                (MatMul (MatMul (MatMul (Translation (0, 0, ww * 0.6 * real_of_int side))
                                        (Scale 0.05 4 (0, 0, 1)))
                                (Scale wh 4 (0, 1, 0)))
                        (Scale (ww * 0.8) 4 (1, 0, 0)))), edits = [], material_index = hull_dark\<rparr>,
            \<lparr>shape = Cube 1 (MatMul (MatMul (MatMul (Translation (0, 0, ww * 0.3 * real_of_int side))
                                     (Scale 0.1 4 (1, 0, 0)))
                             (Scale 0.1 4 (0, 1, 0)))
                     (Scale (ww * 0.3) 4 (0, 0, 1))), edits = [], material_index = hull_m\<rparr>],
      snd (rng_random R s))"
  by (simp add: vertical_wing_def mesh_calls split_beta Let_def nth_append)

lemma stub_wing_eq:
  "stub_wing R wl side (bm, s) =
     (bm @ [\<lparr>shape = Cube 1 (MatMul (MatMul (MatMul
               (Translation (fst (uniform R (- 0.2) 0.2 s), 0, wl * 0.6 * real_of_int side))
               (Scale (fst (uniform R 0.4 0.7 (snd (uniform R (- 0.2) 0.2 s)))) 4 (1, 0, 0)))
               (Scale (fst (uniform R 0.05 0.12 (snd (uniform R 0.4 0.7 (snd (uniform R (- 0.2) 0.2 s)))))) 4 (0, 1, 0)))
               (Scale wl 4 (0, 0, 1))), edits = [], material_index = hull_accent\<rparr>],
      snd (uniform R 0.05 0.12 (snd (uniform R 0.4 0.7 (snd (uniform R (- 0.2) 0.2 s))))))"
  by (simp add: stub_wing_def mesh_calls split_beta Let_def nth_append)

lemma engine_pair_eq:
  "engine_pair r l pos bm =
     bm @ [\<lparr>shape = Cone True False 12 r (r * 0.8) l
                      (MatMul (Translation pos) (Rotation (radians 90) 4 ''Y'')),
            edits = [], material_index = hull_dark\<rparr>,
           \<lparr>shape = Cone True False 12 (r * 0.7) (r * 0.5) (l * 0.3)
                      (MatMul (Translation (vadd pos (- l * 0.5, 0, 0))) (Rotation (radians 90) 4 ''Y'')),
            edits = [], material_index = engine_glow\<rparr>]"
  by (simp add: engine_pair_def mesh_calls split_beta Let_def nth_append)

lemmas wing_steps = xwing_panel_eq swept_wing_eq delta_wing_eq vertical_wing_eq stub_wing_eq

lemma uniform_ge: "rng_ok R \<Longrightarrow> a \<le> b \<Longrightarrow> c \<le> a \<Longrightarrow> c \<le> fst (uniform R a b s)"
  using uniform_lower [of R a b s] by simp

lemma uniform_le: "rng_ok R \<Longrightarrow> a \<le> b \<Longrightarrow> b \<le> c \<Longrightarrow> fst (uniform R a b s) \<le> c"
  using uniform_upper [of R a b s] by simp

lemma fold_appended:
  assumes "\<And>x bm s. x \<in> set xs \<Longrightarrow> \<exists>ps. fst (f x (bm, s)) = bm @ ps \<and> list_all P ps"
  shows "\<exists>ps. fst (fold f xs (bm, s)) = bm @ ps \<and> list_all P ps"
  using assms
proof (induction xs arbitrary: bm s)
  case Nil
  then show ?case by simp
next
  case (Cons x xs)
  from Cons.prems [of x bm s] obtain ps1 where
    1: "fst (f x (bm, s)) = bm @ ps1" and p1: "list_all P ps1"
    by auto
  obtain s1 where fx: "f x (bm, s) = (bm @ ps1, s1)"
    using 1 by (cases "f x (bm, s)") simp
  from Cons.IH [of "bm @ ps1" s1] Cons.prems obtain ps2 where
    2: "fst (fold f xs (bm @ ps1, s1)) = (bm @ ps1) @ ps2" and p2: "list_all P ps2"
    by auto
  have "fst (fold f (x # xs) (bm, s)) = bm @ (ps1 @ ps2)"
    using fx 2 by simp
  with p1 p2 show ?case
    by (intro exI [of _ "ps1 @ ps2"]) simp
qed

lemma xwing_panel_thick:
  assumes "0.03 \<le> wl" "0.03 \<le> ww" "0.03 \<le> wt"
  shows "\<exists>ps. fst (xwing_panel R wl ww wt sa i (bm, s)) = bm @ ps \<and> list_all thick ps"
  using assms by (simp add: xwing_panel_eq thick_def solid_extents_def)

lemma swept_wing_thick:
  assumes "rng_ok R"
  shows "\<exists>ps. fst (swept_wing R wl ww sw side (bm, s)) = bm @ ps \<and> list_all thick ps"
proof -
  have "0.03 \<le> fst (uniform R 0.03 0.08 s)"
    by (rule uniform_lower [OF assms]) simp
  then show ?thesis
    by (simp add: swept_wing_eq thick_def solid_extents_def)
qed

lemma delta_wing_thick:
  assumes "rng_ok R"
  shows "\<exists>ps. fst (delta_wing R wsp wl side (bm, s)) = bm @ ps \<and> list_all thick ps"
proof -
  have "0.04 \<le> fst (uniform R 0.04 0.1 s)"
    by (rule uniform_lower [OF assms]) simp
  then show ?thesis
    by (simp add: delta_wing_eq thick_def solid_extents_def)
qed

lemma vertical_wing_thick:
  assumes "1 \<le> wh" "1 \<le> ww"
  shows "\<exists>ps. fst (vertical_wing R wh ww side (bm, s)) = bm @ ps \<and> list_all thick ps"
  using assms by (simp add: vertical_wing_eq thick_def solid_extents_def)

lemma stub_wing_thick:
  assumes "rng_ok R" "0.03 \<le> wl"
  shows "\<exists>ps. fst (stub_wing R wl side (bm, s)) = bm @ ps \<and> list_all thick ps"
proof -
  have "0.4 \<le> fst (uniform R 0.4 0.7 (snd (uniform R (- 0.2) 0.2 s)))"
    by (rule uniform_lower [OF assms(1)]) simp
  moreover have "0.05 \<le> fst (uniform R 0.05 0.12 (snd (uniform R 0.4 0.7 (snd (uniform R (- 0.2) 0.2 s)))))"
    by (rule uniform_lower [OF assms(1)]) simp
  ultimately show ?thesis
    using assms(2) by (simp add: stub_wing_eq thick_def solid_extents_def)
qed

lemma add_wings_thick:
  assumes "rng_ok R"
  shows "\<exists>ps. fst (snd (add_wings R bm s)) = bm @ ps \<and> list_all thick ps"
proof -
  note ge = uniform_ge [OF assms]
  let ?ws = "fst (choice R wing_styles s)"
  let ?s1 = "snd (choice R wing_styles s)"
  consider (x) "?ws = ''x-wing''" | (sw) "?ws = ''swept''" | (d) "?ws = ''delta''"
    | (v) "?ws = ''vertical''" | (r) "?ws = ''ring''"
    | (st) "?ws \<notin> {''x-wing'', ''swept'', ''delta'', ''vertical'', ''ring''}"
    by auto
  then show ?thesis
  proof cases
    case x
    let ?wl = "fst (uniform R 1.5 2.5 ?s1)"
    let ?s2 = "snd (uniform R 1.5 2.5 ?s1)"
    let ?ww = "fst (uniform R 0.6 1.0 ?s2)"
    let ?s3 = "snd (uniform R 0.6 1.0 ?s2)"
    let ?wt = "fst (uniform R 0.03 0.08 ?s3)"
    let ?s4 = "snd (uniform R 0.03 0.08 ?s3)"
    let ?sa = "fst (uniform R 15 35 ?s4)"
    let ?s5 = "snd (uniform R 15 35 ?s4)"
    have eq: "fst (snd (add_wings R bm s)) =
                fst (fold (xwing_panel R ?wl ?ww ?wt ?sa) [0, 1, 2, 3] (bm, ?s5))"
      using x by (simp add: add_wings_def split_beta)
    have b: "0.03 \<le> ?wl" "0.03 \<le> ?ww" "0.03 \<le> ?wt"
      by (rule ge; simp)+
    show ?thesis
      unfolding eq by (rule fold_appended) (rule xwing_panel_thick [OF b])
  next
    case sw
    let ?wl = "fst (uniform R 1.2 2.0 ?s1)"
    let ?s2 = "snd (uniform R 1.2 2.0 ?s1)"
    let ?ww = "fst (uniform R 0.8 1.4 ?s2)"
    let ?s3 = "snd (uniform R 0.8 1.4 ?s2)"
    let ?sp = "fst (uniform R 0.3 0.7 ?s3)"
    let ?s4 = "snd (uniform R 0.3 0.7 ?s3)"
    have eq: "fst (snd (add_wings R bm s)) =
                fst (fold (swept_wing R ?wl ?ww ?sp) [- 1, 1] (bm, ?s4))"
      using sw by (simp add: add_wings_def split_beta)
    show ?thesis
      unfolding eq by (rule fold_appended) (rule swept_wing_thick [OF assms])
  next
    case d
    let ?wsp = "fst (uniform R 1.5 2.5 ?s1)"
    let ?s2 = "snd (uniform R 1.5 2.5 ?s1)"
    let ?wl = "fst (uniform R 1.0 1.8 ?s2)"
    let ?s3 = "snd (uniform R 1.0 1.8 ?s2)"
    have eq: "fst (snd (add_wings R bm s)) =
                fst (fold (delta_wing R ?wsp ?wl) [- 1, 1] (bm, ?s3))"
      using d by (simp add: add_wings_def split_beta)
    show ?thesis
      unfolding eq by (rule fold_appended) (rule delta_wing_thick [OF assms])
  next
    case v
    let ?wh = "fst (uniform R 1.5 2.5 ?s1)"
    let ?s2 = "snd (uniform R 1.5 2.5 ?s1)"
    let ?ww = "fst (uniform R 1.0 1.8 ?s2)"
    let ?s3 = "snd (uniform R 1.0 1.8 ?s2)"
    have eq: "fst (snd (add_wings R bm s)) =
                fst (fold (vertical_wing R ?wh ?ww) [- 1, 1] (bm, ?s3))"
      using v by (simp add: add_wings_def split_beta)
    have b: "1 \<le> ?wh" "1 \<le> ?ww"
      by (rule ge; simp)+
    show ?thesis
      unfolding eq by (rule fold_appended) (rule vertical_wing_thick [OF b])
  next
    case r
    have "0.03 \<le> fst (uniform R 0.1 0.2 (snd (uniform R 1.2 2.0 ?s1)))"
      by (rule ge) simp_all
    then show ?thesis
      using r by (simp add: add_wings_def split_beta tagged_cone thick_def solid_extents_def)
  next
    case st
    let ?wl = "fst (uniform R 0.5 0.8 ?s1)"
    let ?s2 = "snd (uniform R 0.5 0.8 ?s1)"
    have eq: "fst (snd (add_wings R bm s)) = fst (fold (stub_wing R ?wl) [- 1, 1] (bm, ?s2))"
      using st by (simp add: add_wings_def split_beta)
    have b: "0.03 \<le> ?wl"
      by (rule ge; simp)
    show ?thesis
      unfolding eq by (rule fold_appended) (rule stub_wing_thick [OF assms b])
  qed
qed

lemma fold_engine_pair:
  "fold (engine_pair r l) ps bm = bm @ concat (map (\<lambda>pos. engine_pair r l pos []) ps)"
proof (induction ps arbitrary: bm)
  case Nil
  show ?case by simp
next
  case (Cons p ps)
  have "engine_pair r l p bm = bm @ engine_pair r l p []"
    by (simp add: engine_pair_eq)
  then show ?case
    by (simp add: Cons.IH)
qed

lemma engine_materials:
  "map material_index (concat (map (\<lambda>pos. engine_pair r l pos []) ps)) =
     concat (replicate (length ps) [hull_dark, engine_glow])"
  by (induction ps) (simp_all add: engine_pair_eq)

lemma add_engines_appended:
  "appended bm (fst (add_engines R bm ws s)) =
    (case uniform R 0.1 0.25 (snd (choice R engine_styles s)) of (er, s2) \<Rightarrow>
     case uniform R 0.3 0.6 s2 of (el, s3) \<Rightarrow>
     case engine_positions R ws (fst (choice R engine_styles s)) er el s3 of (ps, er', el', s4) \<Rightarrow>
       concat (map (\<lambda>pos. engine_pair er' el' pos []) ps))"
  by (simp add: add_engines_def split_beta appended_def fold_engine_pair)

lemma num_engines:
  assumes "rng_ok R"
  shows "nat (fst (choice R [1, 2, 3 :: int] s)) \<in> {1, 2, 3}"
  using choice_mem [OF assms, of "[1, 2, 3 :: int]" s] by auto

lemma add_engines_materials:
  "map material_index (appended bm (fst (add_engines R bm ws s))) =
     concat (replicate
       (length (fst (engine_positions R ws (fst (choice R engine_styles s))
          (fst (uniform R 0.1 0.25 (snd (choice R engine_styles s))))
          (fst (uniform R 0.3 0.6 (snd (uniform R 0.1 0.25 (snd (choice R engine_styles s))))))
          (snd (uniform R 0.3 0.6 (snd (uniform R 0.1 0.25 (snd (choice R engine_styles s)))))))))
       [hull_dark, engine_glow])"
  by (simp add: add_engines_appended split_beta engine_materials)

lemma engine_positions_rear_length:
  "engine_style = ''rear'' \<or> wing_style = ''vertical'' \<Longrightarrow>
     length (fst (engine_positions R wing_style engine_style r l s)) =
       nat (fst (choice R [1, 2, 3 :: int] s))"
  by (simp add: engine_positions_def split_beta Let_def)

lemma engine_positions_central_length:
  "engine_style = ''central'' \<Longrightarrow> wing_style \<noteq> ''vertical'' \<Longrightarrow>
     length (fst (engine_positions R wing_style engine_style r l s)) = 1"
  by (simp add: engine_positions_def)

section \<open>The claims\<close>

text \<open>
  C1. For every non-empty seed, two runs of the whole generation (fuselage, canopy, wings,
  engines, details, and the materials after them) with that seed give the same object,
  whatever the process-wide stream held before each run. The object is the full list of
  parts with every argument and every material index, so each of its readings (vertex
  count, face count, material of each face, bounding box) is the same too; the stream the
  two runs leave behind is the same as well.
\<close>

theorem generate_starfighter_deterministic:
  "random_seed \<noteq> [] \<Longrightarrow>
     generate_starfighter R hls_to_rgb random_seed g1 =
     generate_starfighter R hls_to_rgb random_seed g2"
  by (simp add: generate_starfighter_def)

theorem generate_starfighter_deterministic_witness:
  "''42'' \<noteq> [] \<and>
     generate_starfighter tape_rng (\<lambda>h l s. (h, l, s)) ''42'' [] =
     generate_starfighter tape_rng (\<lambda>h l s. (h, l, s)) ''42'' [7, 7, 7]"
  using generate_starfighter_deterministic
          [of "''42''" tape_rng "\<lambda>h l s. (h, l, s)" "[]" "[7, 7, 7]"]
  by simp

text \<open>
  C2. Whenever the wing style is \<open>vertical\<close>, the engine placement used is the rear one,
  whatever engine style was drawn: the positions, dimensions and stream are those the
  drawn style \<open>rear\<close> gives under any wing style; every position lies at
  \<open>x = -0.8\<close>, \<open>y = 0\<close>, behind the fuselage and spread along the lateral axis;
  and the whole result of \<open>add_engines\<close> is the rear build, in which the drawn style
  only advances the stream.
\<close>

theorem engine_positions_vertical:
  "engine_positions R ''vertical'' engine_style r l s = engine_positions R wing_style ''rear'' r l s \<and>
   map (\<lambda>p. (fst p, fst (snd p))) (fst (engine_positions R ''vertical'' engine_style r l s)) =
     replicate (length (fst (engine_positions R ''vertical'' engine_style r l s))) (- 0.8, 0) \<and>
   add_engines R bm ''vertical'' s =
     (case uniform R 0.1 0.25 (snd (choice R engine_styles s)) of (er, s2) \<Rightarrow>
      case uniform R 0.3 0.6 s2 of (el, s3) \<Rightarrow>
      case engine_positions R wing_style ''rear'' er el s3 of (ps, er', el', s4) \<Rightarrow>
        (fold (engine_pair er' el') ps bm, s4))"
  by (simp add: engine_positions_def add_engines_def split_beta Let_def map_replicate_const comp_def)

theorem engine_positions_vertical_witness:
  "engine_positions tape_rng ''vertical'' ''central'' 0.1 0.3 [1] =
     engine_positions tape_rng ''x-wing'' ''rear'' 0.1 0.3 [1] \<and>
   fst (engine_positions tape_rng ''vertical'' ''central'' 0.1 0.3 [1]) =
     [(- 0.8, 0, - 0.125), (- 0.8, 0, 0.125)]"
proof -
  have "fst (engine_positions tape_rng ''x-wing'' ''rear'' 0.1 0.3 [1]) =
          [(- 0.8, 0, - 0.125), (- 0.8, 0, 0.125)]"
    by code_simp
  then show ?thesis
    using engine_positions_vertical [of tape_rng "''central''" "0.1" "0.3" "[1]" "''x-wing''"]
    by simp
qed

text \<open>
  C3, as amended. When the wing style is \<open>vertical\<close> the rear placement is used
  whatever style was drawn, \<open>central\<close> included: the positions are those of the rear
  branch, one for each of the \<open>num_engines\<close> drawn from \<open>[1, 2, 3]\<close> after the
  style and the two dimensions, and the engine generator appends exactly that many
  engine pairs (1, 2 or 3), with the dimensions as drawn, each pair a housing tagged
  \<open>hull_dark\<close> followed by a glow cone tagged \<open>engine_glow\<close>. Exactly one pair,
  the central one, is appended when \<open>central\<close> is drawn and the wing style is not
  \<open>vertical\<close>.
\<close>

theorem add_engines_vertical_pairs:
  assumes "rng_ok R"
  shows "(let s1 = snd (choice R engine_styles s);
              er = fst (uniform R 0.1 0.25 s1);
              s2 = snd (uniform R 0.1 0.25 s1);
              el = fst (uniform R 0.3 0.6 s2);
              s3 = snd (uniform R 0.3 0.6 s2);
              num_engines = fst (choice R [1, 2, 3 :: int] s3);
              positions = map (\<lambda>i. (- 0.8, 0, (real i - (real_of_int num_engines - 1) / 2) * 0.25))
                            [0..<nat num_engines]
          in num_engines \<in> {1, 2, 3} \<and>
             length positions = nat num_engines \<and>
             fst (engine_positions R wing_style ''rear'' er el s3) = positions \<and>
             appended bm (fst (add_engines R bm ''vertical'' s)) =
               concat (map (\<lambda>pos. engine_pair er el pos []) positions) \<and>
             map material_index (appended bm (fst (add_engines R bm ''vertical'' s))) =
               concat (replicate (nat num_engines) [hull_dark, engine_glow])) \<and>
         (fst (choice R engine_styles s) = ''central'' \<and> wing_style \<noteq> ''vertical'' \<longrightarrow>
           appended bm (fst (add_engines R bm wing_style s)) =
             engine_pair (fst (uniform R 0.1 0.25 (snd (choice R engine_styles s))) * 2)
               (fst (uniform R 0.3 0.6
                      (snd (uniform R 0.1 0.25 (snd (choice R engine_styles s))))) * 1.5)
               (- 0.7, 0, 0) [] \<and>
           map material_index (appended bm (fst (add_engines R bm wing_style s))) =
             [hull_dark, engine_glow])"
proof
  let ?es = "fst (choice R engine_styles s)"
  let ?s1 = "snd (choice R engine_styles s)"
  let ?er = "fst (uniform R 0.1 0.25 ?s1)"
  let ?s2 = "snd (uniform R 0.1 0.25 ?s1)"
  let ?el = "fst (uniform R 0.3 0.6 ?s2)"
  let ?s3 = "snd (uniform R 0.3 0.6 ?s2)"
  let ?num = "fst (choice R [1, 2, 3 :: int] ?s3)"
  let ?ps = "map (\<lambda>i. (- 0.8, 0, (real i - (real_of_int ?num - 1) / 2) * 0.25)) [0..<nat ?num]"
  let ?E = "engine_positions R ''vertical'' ?es ?er ?el ?s3"
  have num: "?num \<in> {1, 2, 3}"
    using choice_mem [OF assms, of "[1, 2, 3 :: int]" ?s3] by simp
  have rear: "engine_positions R wing_style ''rear'' ?er ?el ?s3 =
                (?ps, ?er, ?el, snd (choice R [1, 2, 3 :: int] ?s3))"
    by (simp add: engine_positions_def split_beta Let_def)
  have vert: "?E = (?ps, ?er, ?el, snd (choice R [1, 2, 3 :: int] ?s3))"
    by (simp add: engine_positions_def split_beta Let_def)
  have app: "appended bm (fst (add_engines R bm ''vertical'' s)) =
               concat (map (\<lambda>pos. engine_pair ?er ?el pos []) ?ps)"
    by (simp only: add_engines_appended split_beta vert fst_conv snd_conv)
  have mats: "map material_index (appended bm (fst (add_engines R bm ''vertical'' s))) =
                concat (replicate (nat ?num) [hull_dark, engine_glow])"
    by (simp only: app engine_materials length_map length_upt diff_zero)
  show "let s1 = snd (choice R engine_styles s);
            er = fst (uniform R 0.1 0.25 s1);
            s2 = snd (uniform R 0.1 0.25 s1);
            el = fst (uniform R 0.3 0.6 s2);
            s3 = snd (uniform R 0.3 0.6 s2);
            num_engines = fst (choice R [1, 2, 3 :: int] s3);
            positions = map (\<lambda>i. (- 0.8, 0, (real i - (real_of_int num_engines - 1) / 2) * 0.25))
                          [0..<nat num_engines]
        in num_engines \<in> {1, 2, 3} \<and>
           length positions = nat num_engines \<and>
           fst (engine_positions R wing_style ''rear'' er el s3) = positions \<and>
           appended bm (fst (add_engines R bm ''vertical'' s)) =
             concat (map (\<lambda>pos. engine_pair er el pos []) positions) \<and>
           map material_index (appended bm (fst (add_engines R bm ''vertical'' s))) =
             concat (replicate (nat num_engines) [hull_dark, engine_glow])"
    unfolding Let_def
  proof (intro conjI)
    show "?num \<in> {1, 2, 3}" by (rule num)
    show "length ?ps = nat ?num" by simp
    show "fst (engine_positions R wing_style ''rear'' ?er ?el ?s3) = ?ps"
      by (simp only: rear fst_conv)
    show "appended bm (fst (add_engines R bm ''vertical'' s)) =
            concat (map (\<lambda>pos. engine_pair ?er ?el pos []) ?ps)"
      by (rule app)
    show "map material_index (appended bm (fst (add_engines R bm ''vertical'' s))) =
            concat (replicate (nat ?num) [hull_dark, engine_glow])"
      by (rule mats)
  qed
next
  show "fst (choice R engine_styles s) = ''central'' \<and> wing_style \<noteq> ''vertical'' \<longrightarrow>
           appended bm (fst (add_engines R bm wing_style s)) =
             engine_pair (fst (uniform R 0.1 0.25 (snd (choice R engine_styles s))) * 2)
               (fst (uniform R 0.3 0.6
                      (snd (uniform R 0.1 0.25 (snd (choice R engine_styles s))))) * 1.5)
               (- 0.7, 0, 0) [] \<and>
           map material_index (appended bm (fst (add_engines R bm wing_style s))) =
             [hull_dark, engine_glow]"
  proof (intro impI conjI)
    assume c: "fst (choice R engine_styles s) = ''central'' \<and> wing_style \<noteq> ''vertical''"
    then show "appended bm (fst (add_engines R bm wing_style s)) =
             engine_pair (fst (uniform R 0.1 0.25 (snd (choice R engine_styles s))) * 2)
               (fst (uniform R 0.3 0.6
                      (snd (uniform R 0.1 0.25 (snd (choice R engine_styles s))))) * 1.5)
               (- 0.7, 0, 0) []"
      by (simp add: add_engines_appended split_beta engine_positions_def)
    from c show "map material_index (appended bm (fst (add_engines R bm wing_style s))) =
             [hull_dark, engine_glow]"
      by (simp add: add_engines_materials engine_positions_central_length)
  qed
qed

theorem add_engines_vertical_pairs_witness:
  "rng_ok tape_rng \<and>
   fst (choice tape_rng engine_styles [3, 0, 0, 4]) = ''central'' \<and>
   fst (choice tape_rng [1, 2, 3 :: int] [4]) = 2 \<and>
   fst (engine_positions tape_rng ''x-wing'' ''rear'' 0.1 0.3 [4]) =
     [(- 0.8, 0, - 0.125), (- 0.8, 0, 0.125)] \<and>
   appended [] (fst (add_engines tape_rng [] ''vertical'' [3, 0, 0, 4])) =
     engine_pair 0.1 0.3 (- 0.8, 0, - 0.125) [] @ engine_pair 0.1 0.3 (- 0.8, 0, 0.125) [] \<and>
   map material_index (appended [] (fst (add_engines tape_rng [] ''vertical'' [3, 0, 0, 4]))) =
     [hull_dark, engine_glow, hull_dark, engine_glow] \<and>
   fst (choice tape_rng engine_styles [3]) = ''central'' \<and>
   appended [] (fst (add_engines tape_rng [] ''x-wing'' [3])) =
     engine_pair 0.2 0.45 (- 0.7, 0, 0) [] \<and>
   map material_index (appended [] (fst (add_engines tape_rng [] ''x-wing'' [3]))) =
     [hull_dark, engine_glow]"
proof -
  have c: "fst (choice tape_rng engine_styles [3]) = ''central''"
    "snd (choice tape_rng engine_styles [3]) = []"
    "fst (choice tape_rng engine_styles [3, 0, 0, 4]) = ''central''"
    "snd (choice tape_rng engine_styles [3, 0, 0, 4]) = [0, 0, 4]"
    "fst (uniform tape_rng (1 / 10) (1 / 4) [0, 0, 4]) = 1 / 10"
    "snd (uniform tape_rng (1 / 10) (1 / 4) [0, 0, 4]) = [0, 4]"
    "fst (uniform tape_rng (3 / 10) (3 / 5) [0, 4]) = 3 / 10"
    "snd (uniform tape_rng (3 / 10) (3 / 5) [0, 4]) = [4]"
    "fst (uniform tape_rng (1 / 10) (1 / 4) []) = 1 / 10"
    "snd (uniform tape_rng (1 / 10) (1 / 4) []) = []"
    "fst (uniform tape_rng (3 / 10) (3 / 5) []) = 3 / 10"
    "fst (choice tape_rng [1, 2, 3 :: int] [4]) = 2"
    by code_simp+
  have u: "[0..<2] = [0, Suc 0]"
    by (simp add: upt_rec)
  show ?thesis
    using rng_ok_tape
      add_engines_vertical_pairs
        [OF rng_ok_tape, where bm = "[]" and s = "[3, 0, 0, 4]" and wing_style = "''x-wing''"]
      add_engines_vertical_pairs
        [OF rng_ok_tape, where bm = "[]" and s = "[3]" and wing_style = "''x-wing''"]
    by (simp add: Let_def c u engine_pair_eq)
qed

text \<open>The claim as stated fails: with \<open>central\<close> drawn and vertical wings, the tape
  \<open>[3, 0, 0, 1]\<close> gives two engine pairs.\<close>

theorem central_vertical_counterexample:
  "fst (choice tape_rng engine_styles [3, 0, 0, 1]) = ''central'' \<and>
   map material_index (appended [] (fst (add_engines tape_rng [] ''vertical'' [3, 0, 0, 1]))) =
     [hull_dark, engine_glow, hull_dark, engine_glow]"
  by code_simp

text \<open>
  C4. For every wing style and engine style, the list of engine positions is not empty:
  the rear branch (drawn, or forced by vertical wings) gives 1, 2 or 3 positions,
  \<open>wing_tip\<close> gives 2 or 6, \<open>pod\<close> gives 2 and the last branch (\<open>central\<close>)
  gives 1.
\<close>

theorem engine_positions_count:
  assumes "rng_ok R"
  shows "fst (engine_positions R wing_style engine_style r l s) \<noteq> [] \<and>
    (if engine_style = ''rear'' \<or> wing_style = ''vertical''
       then length (fst (engine_positions R wing_style engine_style r l s)) \<in> {1, 2, 3}
     else if engine_style = ''wing_tip''
       then length (fst (engine_positions R wing_style engine_style r l s)) \<in> {2, 6}
     else if engine_style = ''pod''
       then length (fst (engine_positions R wing_style engine_style r l s)) = 2
     else length (fst (engine_positions R wing_style engine_style r l s)) = 1)"
  using num_engines [OF assms, of s]
  by (auto simp add: engine_positions_def split_beta Let_def)

theorem engine_positions_count_witness:
  "rng_ok tape_rng \<and>
   length (fst (engine_positions tape_rng ''x-wing'' ''wing_tip'' 0.1 0.3 [0, 0, 0, 60])) = 6 \<and>
   length (fst (engine_positions tape_rng ''x-wing'' ''wing_tip'' 0.1 0.3 [0, 0, 0, 60])) \<in> {2, 6} \<and>
   fst (engine_positions tape_rng ''x-wing'' ''wing_tip'' 0.1 0.3 [0, 0, 0, 60]) \<noteq> []"
proof -
  have "length (fst (engine_positions tape_rng ''x-wing'' ''wing_tip'' 0.1 0.3 [0, 0, 0, 60])) = 6"
    by code_simp
  then show ?thesis
    using rng_ok_tape
      engine_positions_count [OF rng_ok_tape, of "''x-wing''" "''wing_tip''" "0.1" "0.3" "[0, 0, 0, 60]"]
    by simp
qed

text \<open>
  C5. For every wing style, every extent of every solid part the wing generator appends
  (panel thickness, extrusion offset, panel depth, ring thickness, stub height, and the
  other sides as well) is at least 0.03: each is a constant or the value of a draw whose
  range starts at 0.03 or above.
\<close>

theorem add_wings_thickness:
  assumes "rng_ok R"
  shows "\<forall>p \<in> set (appended bm (fst (snd (add_wings R bm s)))).
           \<forall>t \<in> set (solid_extents p). 0.03 \<le> t"
proof -
  from add_wings_thick [OF assms, of bm s] obtain ps where
    "fst (snd (add_wings R bm s)) = bm @ ps" and "list_all thick ps"
    by blast
  then show ?thesis
    by (simp add: appended_def list_all_iff thick_def)
qed

theorem add_wings_thickness_witness:
  "rng_ok tape_rng \<and>
   length (appended [] (fst (snd (add_wings tape_rng [] [0])))) = 4 \<and>
   list_all (\<lambda>p. list_all (\<lambda>t. 0.03 \<le> t) (solid_extents p))
     (appended [] (fst (snd (add_wings tape_rng [] [0]))))"
proof -
  have "length (appended [] (fst (snd (add_wings tape_rng [] [0])))) = 4"
    by code_simp
  then show ?thesis
    using rng_ok_tape add_wings_thickness [OF rng_ok_tape, of "[]" "[0]"]
    by (simp add: list_all_iff)
qed

text \<open>
  C6, as amended. Every part the wing generator appends is tagged \<open>hull\<close>,
  \<open>hull_accent\<close> or \<open>hull_dark\<close>, never \<open>engine_glow\<close> or \<open>cockpit\<close>. For the
  styles other than \<open>vertical\<close> and \<open>ring\<close> the tags are \<open>hull\<close> and
  \<open>hull_accent\<close> only; the vertical wings are a \<open>hull_dark\<close> panel and a
  \<open>hull\<close> strut on each side, the ring is a \<open>hull_accent\<close> shell and a
  \<open>hull_dark\<close> shell.
\<close>

theorem add_wings_materials:
  "(\<forall>p \<in> set (appended bm (fst (snd (add_wings R bm s)))).
      material_index p \<in> {hull_m, hull_accent, hull_dark}) \<and>
   (fst (add_wings R bm s) \<notin> {''vertical'', ''ring''} \<longrightarrow>
      (\<forall>p \<in> set (appended bm (fst (snd (add_wings R bm s)))).
         material_index p \<in> {hull_m, hull_accent})) \<and>
   (fst (add_wings R bm s) = ''vertical'' \<longrightarrow>
      map material_index (appended bm (fst (snd (add_wings R bm s)))) = [hull_dark, hull_m, hull_dark, hull_m]) \<and>
   (fst (add_wings R bm s) = ''ring'' \<longrightarrow>
      map material_index (appended bm (fst (snd (add_wings R bm s)))) = [hull_accent, hull_dark])"
  by (simp add: add_wings_def appended_def wing_steps tagged_cone split_beta Let_def)

theorem add_wings_materials_witness:
  "fst (add_wings tape_rng [] [0]) = ''x-wing'' \<and>
   list_all (\<lambda>p. material_index p \<in> {hull_m, hull_accent})
     (appended [] (fst (snd (add_wings tape_rng [] [0])))) \<and>
   fst (add_wings tape_rng [] [3]) = ''vertical'' \<and>
   map material_index (appended [] (fst (snd (add_wings tape_rng [] [3])))) =
     [hull_dark, hull_m, hull_dark, hull_m]"
proof -
  have "fst (add_wings tape_rng [] [0]) = ''x-wing''"
    and "fst (add_wings tape_rng [] [3]) = ''vertical''"
    by code_simp+
  then show ?thesis
    using add_wings_materials [of "[]" tape_rng "[0]"] add_wings_materials [of "[]" tape_rng "[3]"]
    by (simp add: list_all_iff)
qed

text \<open>The claim as stated fails: the ring wings and the vertical wings carry parts tagged
  \<open>hull_dark\<close>.\<close>

theorem wing_hull_dark_counterexample:
  "fst (add_wings tape_rng [] [4]) = ''ring'' \<and>
   map material_index (appended [] (fst (snd (add_wings tape_rng [] [4])))) =
     [hull_accent, hull_dark] \<and>
   fst (add_wings tape_rng [] [3]) = ''vertical'' \<and>
   map material_index (appended [] (fst (snd (add_wings tape_rng [] [3])))) =
     [hull_dark, hull_m, hull_dark, hull_m]"
  by code_simp

text \<open>
  C7. Whenever the wing style drawn is \<open>ring\<close>, the wing generator appends exactly two
  cones with \<open>cap_ends\<close> false and 32 segments, equal radii at both ends, on the same
  axis: the outer one tagged \<open>hull_accent\<close>, the inner one, of 0.85 times the radius,
  tagged \<open>hull_dark\<close>.
\<close>

theorem add_wings_ring:
  assumes "fst (choice R wing_styles s) = ''ring''"
  shows "fst (add_wings R bm s) = ''ring'' \<and>
    appended bm (fst (snd (add_wings R bm s))) =
      (let ring_radius = fst (uniform R 1.2 2.0 (snd (choice R wing_styles s)));
           ring_thickness = fst (uniform R 0.1 0.2 (snd (uniform R 1.2 2.0 (snd (choice R wing_styles s)))))
       in [\<lparr>shape = Cone False False 32 ring_radius ring_radius ring_thickness
                       (Rotation (radians 90) 4 ''Y''),
             edits = [], material_index = hull_accent\<rparr>,
            \<lparr>shape = Cone False False 32 (ring_radius * 0.85) (ring_radius * 0.85)
                       (ring_thickness * 1.5) (Rotation (radians 90) 4 ''Y''),
             edits = [], material_index = hull_dark\<rparr>])"
  using assms by (simp add: add_wings_def appended_def tagged_cone split_beta Let_def)

theorem add_wings_ring_witness:
  "fst (choice tape_rng wing_styles [4, 50, 50]) = ''ring'' \<and>
   fst (add_wings tape_rng [] [4, 50, 50]) = ''ring'' \<and>
   appended [] (fst (snd (add_wings tape_rng [] [4, 50, 50]))) =
     [\<lparr>shape = Cone False False 32 1.6 1.6 0.15 (Rotation (radians 90) 4 ''Y''),
       edits = [], material_index = hull_accent\<rparr>,
      \<lparr>shape = Cone False False 32 1.36 1.36 0.225 (Rotation (radians 90) 4 ''Y''),
       edits = [], material_index = hull_dark\<rparr>]"
proof -
  have h: "fst (choice tape_rng wing_styles [4, 50, 50]) = ''ring''"
    by code_simp
  show ?thesis
    using h add_wings_ring [OF h, of "[]"]
    by (simp add: Let_def uniform_def choice_def tape_rng_def wing_styles_def)
qed
text \<open>
  C8, as amended. On a new mesh, the pod fuselage's stretch factor lies between 1.2 and
  1.8, and the rounded fuselage's elongation factor, its length over its width over 2,
  lies between 1.125 and 2.8. The two are drawn independently and neither is always
  the larger.
\<close>

theorem create_fuselage_factors:
  assumes "rng_ok R"
  shows "(fst (choice R [''pointed'', ''rounded'', ''angular'', ''pod''] s) = ''rounded'' \<longrightarrow>
      (\<exists>w f. fst (snd (create_fuselage R [] s)) =
          [\<lparr>shape = Icosphere 2 w (Scale f 4 (1, 0, 0)), edits = [], material_index = hull_m\<rparr>] \<and>
        1.125 \<le> f \<and> f \<le> 2.8)) \<and>
    (fst (choice R [''pointed'', ''rounded'', ''angular'', ''pod''] s) = ''pod'' \<longrightarrow>
      (\<exists>r k. fst (snd (create_fuselage R [] s)) =
          [\<lparr>shape = Icosphere 2 r Identity, edits = [ScaleVerts (k, 1, 1)], material_index = hull_m\<rparr>] \<and>
        1.2 \<le> k \<and> k \<le> 1.8))"
proof (intro conjI impI)
  let ?s1 = "snd (choice R [''pointed'', ''rounded'', ''angular'', ''pod''] s)"
  let ?l = "fst (uniform R 1.8 2.8 ?s1)"
  let ?w = "fst (uniform R 0.5 0.8 (snd (uniform R 1.8 2.8 ?s1)))"
  assume st: "fst (choice R [''pointed'', ''rounded'', ''angular'', ''pod''] s) = ''rounded''"
  have l: "1.8 \<le> ?l" "?l \<le> 2.8" and w: "0.5 \<le> ?w" "?w \<le> 0.8"
    by (rule uniform_lower [OF assms] uniform_upper [OF assms]; simp)+
  have eq: "fst (snd (create_fuselage R [] s)) =
     [\<lparr>shape = Icosphere 2 ?w (Scale (?l / ?w / 2) 4 (1, 0, 0)), edits = [], material_index = hull_m\<rparr>]"
    using st by (simp add: create_fuselage_def split_beta mesh_calls)
  have "1.125 * (?w * 2) \<le> ?l" "?l \<le> 2.8 * (?w * 2)"
    using l w by simp_all
  then have "1.125 \<le> ?l / ?w / 2" "?l / ?w / 2 \<le> 2.8"
    using w by (simp_all add: field_simps)
  with eq show "\<exists>w f. fst (snd (create_fuselage R [] s)) =
          [\<lparr>shape = Icosphere 2 w (Scale f 4 (1, 0, 0)), edits = [], material_index = hull_m\<rparr>] \<and>
        1.125 \<le> f \<and> f \<le> 2.8"
    by blast
next
  let ?s1 = "snd (choice R [''pointed'', ''rounded'', ''angular'', ''pod''] s)"
  let ?r = "fst (uniform R 0.5 0.8 ?s1)"
  let ?k = "fst (uniform R 1.2 1.8 (snd (uniform R 0.5 0.8 ?s1)))"
  assume st: "fst (choice R [''pointed'', ''rounded'', ''angular'', ''pod''] s) = ''pod''"
  have k: "1.2 \<le> ?k" "?k \<le> 1.8"
    by (rule uniform_lower [OF assms] uniform_upper [OF assms]; simp)+
  have eq: "fst (snd (create_fuselage R [] s)) =
     [\<lparr>shape = Icosphere 2 ?r Identity, edits = [ScaleVerts (?k, 1, 1)], material_index = hull_m\<rparr>]"
    using st by (simp add: create_fuselage_def split_beta mesh_calls all_verts_def)
  with k show "\<exists>r k. fst (snd (create_fuselage R [] s)) =
          [\<lparr>shape = Icosphere 2 r Identity, edits = [ScaleVerts (k, 1, 1)], material_index = hull_m\<rparr>] \<and>
        1.2 \<le> k \<and> k \<le> 1.8"
    by blast
qed

theorem create_fuselage_factors_witness:
  "rng_ok tape_rng \<and>
   fst (choice tape_rng [''pointed'', ''rounded'', ''angular'', ''pod''] [1, 90, 0]) = ''rounded'' \<and>
   (\<exists>w f. fst (snd (create_fuselage tape_rng [] [1, 90, 0])) =
       [\<lparr>shape = Icosphere 2 w (Scale f 4 (1, 0, 0)), edits = [], material_index = hull_m\<rparr>] \<and>
     1.125 \<le> f \<and> f \<le> 2.8) \<and>
   fst (choice tape_rng [''pointed'', ''rounded'', ''angular'', ''pod''] [3, 0, 99]) = ''pod'' \<and>
   (\<exists>r k. fst (snd (create_fuselage tape_rng [] [3, 0, 99])) =
       [\<lparr>shape = Icosphere 2 r Identity, edits = [ScaleVerts (k, 1, 1)],
         material_index = hull_m\<rparr>] \<and>
     1.2 \<le> k \<and> k \<le> 1.8)"
proof -
  have "fst (choice tape_rng [''pointed'', ''rounded'', ''angular'', ''pod''] [1, 90, 0]) = ''rounded''"
    and "fst (choice tape_rng [''pointed'', ''rounded'', ''angular'', ''pod''] [3, 0, 99]) = ''pod''"
    by code_simp+
  then show ?thesis
    using rng_ok_tape create_fuselage_factors [OF rng_ok_tape, of "[1, 90, 0]"]
      create_fuselage_factors [OF rng_ok_tape, of "[3, 0, 99]"]
    by simp
qed

text \<open>The claim as stated fails: a rounded fuselage of length 2.7 and width 0.5 is
  elongated by 2.7, a pod stretched by 1.794 is stretched less.\<close>

theorem pod_stretch_counterexample:
  "create_fuselage tape_rng [] [1, 90, 0] =
     (''rounded'',
      [\<lparr>shape = Icosphere 2 0.5 (Scale 2.7 4 (1, 0, 0)), edits = [], material_index = hull_m\<rparr>],
      []) \<and>
   create_fuselage tape_rng [] [3, 0, 99] =
     (''pod'',
      [\<lparr>shape = Icosphere 2 0.5 Identity, edits = [ScaleVerts (1.794, 1, 1)],
        material_index = hull_m\<rparr>],
      []) \<and>
   \<not> (2.7 :: real) < 1.794"
  by code_simp
text \<open>
  C9, as amended. For every fuselage style, when the first draw exceeds 0.3 (probability
  0.7 for a uniform draw) the canopy generator appends exactly one part tagged
  \<open>cockpit\<close>: an icosphere when the fuselage style is pointed or rounded, a cube
  otherwise, of a drawn size, raised by a drawn \<open>y_offset\<close> between 0.1 and 0.25. The
  icosphere is moved along the body axis by a drawn amount between -0.2 and 0.3, forward
  or backward; the cube is not moved along the body axis. When the draw is at most 0.3
  the mesh is returned as it was, with the one draw consumed, and nothing fails.
\<close>

theorem add_cockpit_canopy_cases:
  assumes "rng_ok R"
  shows "(fst (rng_random R s) > 0.3 \<longrightarrow>
      (\<exists>canopy_size y_offset. 0.2 \<le> canopy_size \<and> canopy_size \<le> 0.4 \<and>
          0.1 \<le> y_offset \<and> y_offset \<le> 0.25 \<and>
          (if fuselage_style = ''pointed'' \<or> fuselage_style = ''rounded''
           then \<exists>x_offset. - 0.2 \<le> x_offset \<and> x_offset \<le> 0.3 \<and>
                appended bm (fst (add_cockpit_canopy R bm fuselage_style s)) =
                  [\<lparr>shape = Icosphere 2 canopy_size (Translation (x_offset, y_offset, 0)),
                    edits = [], material_index = cockpit\<rparr>]
           else appended bm (fst (add_cockpit_canopy R bm fuselage_style s)) =
                  [\<lparr>shape = Cube (canopy_size * 1.5) (Translation (0, y_offset, 0)),
                    edits = [], material_index = cockpit\<rparr>]))) \<and>
    (fst (rng_random R s) \<le> 0.3 \<longrightarrow>
       add_cockpit_canopy R bm fuselage_style s = (bm, snd (rng_random R s)))"
proof (intro conjI impI)
  let ?s1 = "snd (rng_random R s)"
  let ?c = "fst (uniform R 0.2 0.4 ?s1)"
  let ?s2 = "snd (uniform R 0.2 0.4 ?s1)"
  let ?y = "fst (uniform R 0.1 0.25 ?s2)"
  let ?s3 = "snd (uniform R 0.1 0.25 ?s2)"
  let ?x = "fst (uniform R (- 0.2) 0.3 ?s3)"
  assume r: "fst (rng_random R s) > 0.3"
  have b: "0.2 \<le> ?c" "?c \<le> 0.4" "0.1 \<le> ?y" "?y \<le> 0.25" "- 0.2 \<le> ?x" "?x \<le> 0.3"
    by (rule uniform_lower [OF assms] uniform_upper [OF assms]; simp)+
  have sphere: "appended bm (fst (add_cockpit_canopy R bm fuselage_style s)) =
      [\<lparr>shape = Icosphere 2 ?c (Translation (?x, ?y, 0)), edits = [], material_index = cockpit\<rparr>]"
    if "fuselage_style = ''pointed'' \<or> fuselage_style = ''rounded''"
    using r that by (auto simp add: add_cockpit_canopy_def split_beta appended_def tagged_icosphere)
  have cube: "appended bm (fst (add_cockpit_canopy R bm fuselage_style s)) =
      [\<lparr>shape = Cube (?c * 1.5) (Translation (0, ?y, 0)), edits = [], material_index = cockpit\<rparr>]"
    if "\<not> (fuselage_style = ''pointed'' \<or> fuselage_style = ''rounded'')"
    using r that by (simp add: add_cockpit_canopy_def split_beta appended_def tagged_cube)
  show "\<exists>canopy_size y_offset. 0.2 \<le> canopy_size \<and> canopy_size \<le> 0.4 \<and>
          0.1 \<le> y_offset \<and> y_offset \<le> 0.25 \<and>
          (if fuselage_style = ''pointed'' \<or> fuselage_style = ''rounded''
           then \<exists>x_offset. - 0.2 \<le> x_offset \<and> x_offset \<le> 0.3 \<and>
                appended bm (fst (add_cockpit_canopy R bm fuselage_style s)) =
                  [\<lparr>shape = Icosphere 2 canopy_size (Translation (x_offset, y_offset, 0)),
                    edits = [], material_index = cockpit\<rparr>]
           else appended bm (fst (add_cockpit_canopy R bm fuselage_style s)) =
                  [\<lparr>shape = Cube (canopy_size * 1.5) (Translation (0, y_offset, 0)),
                    edits = [], material_index = cockpit\<rparr>])"
  proof (cases "fuselage_style = ''pointed'' \<or> fuselage_style = ''rounded''")
    case True
    with sphere b show ?thesis by (intro exI [of _ ?c] exI [of _ ?y]) auto
  next
    case False
    with cube b show ?thesis by (intro exI [of _ ?c] exI [of _ ?y]) auto
  qed
next
  assume "fst (rng_random R s) \<le> 0.3"
  then show "add_cockpit_canopy R bm fuselage_style s = (bm, snd (rng_random R s))"
    by (simp add: add_cockpit_canopy_def split_beta)
qed

theorem add_cockpit_canopy_cases_witness:
  "rng_ok tape_rng \<and>
   fst (rng_random tape_rng [50, 0, 0, 0]) > 0.3 \<and>
   appended [] (fst (add_cockpit_canopy tape_rng [] ''rounded'' [50, 0, 0, 0])) =
     [\<lparr>shape = Icosphere 2 0.2 (Translation (- 0.2, 0.1, 0)), edits = [],
       material_index = cockpit\<rparr>] \<and>
   fst (rng_random tape_rng [10]) \<le> 0.3 \<and>
   add_cockpit_canopy tape_rng [] ''rounded'' [10] = ([], [])"
proof -
  have "fst (rng_random tape_rng [50, 0, 0, 0]) > 0.3"
    and "fst (rng_random tape_rng [10]) \<le> 0.3"
    and "snd (rng_random tape_rng [10]) = []"
    and "appended [] (fst (add_cockpit_canopy tape_rng [] ''rounded'' [50, 0, 0, 0])) =
     [\<lparr>shape = Icosphere 2 0.2 (Translation (- 0.2, 0.1, 0)), edits = [],
       material_index = cockpit\<rparr>]"
    by code_simp+
  then show ?thesis
    using rng_ok_tape
      add_cockpit_canopy_cases
        [OF rng_ok_tape, where s = "[10]" and bm = "[]" and fuselage_style = "''rounded''"]
      add_cockpit_canopy_cases
        [OF rng_ok_tape, where s = "[50, 0, 0, 0]" and bm = "[]" and fuselage_style = "''rounded''"]
    by simp
qed

text \<open>The claim as stated fails: a canopy on a pointed fuselage can sit 0.2 behind the
  origin, and the canopy on an angular fuselage is not moved along the body axis at
  all.\<close>

theorem canopy_offset_counterexample:
  "add_cockpit_canopy tape_rng [] ''pointed'' [50, 0, 0, 0] =
     ([\<lparr>shape = Icosphere 2 0.2 (Translation (- 0.2, 0.1, 0)), edits = [],
        material_index = cockpit\<rparr>], []) \<and>
   add_cockpit_canopy tape_rng [] ''angular'' [50, 0, 0] =
     ([\<lparr>shape = Cube 0.3 (Translation (0, 0.1, 0)), edits = [],
        material_index = cockpit\<rparr>], [])"
  by code_simp
text \<open>
  C10. With the empty string as seed the stream is not reseeded: whatever \<open>seed\<close> would
  do, the call does not consult it, and the ship is built from the stream as the call
  finds it. Two calls with the empty seed need not give the same mesh: on the tape
  stream, starting from the tape \<open>[1]\<close>, the second call builds a mesh other than
  the first.
\<close>

theorem generate_starfighter_empty_seed:
  "generate_starfighter (R\<lparr>rng_seed := f\<rparr>) hls_to_rgb [] g =
     generate_starfighter R hls_to_rgb [] g \<and>
   (case generate_starfighter tape_rng (\<lambda>h l s. (h, l, s)) [] [1] of (obj1, g') \<Rightarrow>
      ship_mesh obj1 \<noteq> ship_mesh (fst (generate_starfighter tape_rng (\<lambda>h l s. (h, l, s)) [] g')))"
proof
  show "generate_starfighter (R\<lparr>rng_seed := f\<rparr>) hls_to_rgb [] g =
          generate_starfighter R hls_to_rgb [] g"
    by (simp add: generate_starfighter_def create_fuselage_seed add_cockpit_canopy_seed
          add_wings_seed add_engines_seed add_details_seed create_materials_seed)
next
  show "case generate_starfighter tape_rng (\<lambda>h l s. (h, l, s)) [] [1] of (obj1, g') \<Rightarrow>
      ship_mesh obj1 \<noteq> ship_mesh (fst (generate_starfighter tape_rng (\<lambda>h l s. (h, l, s)) [] g'))"
    by code_simp
qed

end
